theory Spec2Isabelle
  imports Main "HOL-Library.Char_ord" "HOL-Library.List_Lexorder" "HOL-Library.AList"
begin

section \<open>The kpt deployer of skaffold (pkg/skaffold/deploy/kpt.go)\<close>

text \<open>
  Byte slices and Go strings are both modelled as \<open>string\<close> (a list of 8-bit characters).
\<close>

type_synonym bytes = string

subsection \<open>Errors\<close>

text \<open>
  A Go \<^verbatim>\<open>error\<close> value. \<open>NotExist\<close> is an error of package os for which
  \<^verbatim>\<open>os.IsNotExist\<close> holds (ENOENT), \<open>NotDir\<close> one for which it does not (ENOTDIR: a
  component of the path prefix is a regular file), \<open>Failure\<close> is an error handed back by an
  external collaborator (a library or a subprocess), \<open>New m\<close> is \<^verbatim>\<open>errors.New(m)\<close> and
  \<open>Wrap m e\<close> is \<^verbatim>\<open>fmt.Errorf("m: %w", e)\<close>.
\<close>

datatype error =
    NotExist string
  | NotDir string
  | Failure string
  | New string
  | Wrap string error

subsection \<open>Argument vectors\<close>

text \<open>
  \<open>Split s c\<close> is Go's \<^verbatim>\<open>strings.Split(s, sep)\<close> for a separator of one byte: the
  pieces of \<open>s\<close> between the occurrences of the separator, one more piece than there are
  separators, so the empty string gives one empty piece.
\<close>

fun Split :: "string \<Rightarrow> char \<Rightarrow> string list" where
  "Split [] c = [[]]"
| "Split (x # xs) c =
     (if x = c then [] # Split xs c
      else (case Split xs c of
              [] \<Rightarrow> [[x]]
            | w # ws \<Rightarrow> (x # w) # ws))"

text \<open>
  One of the three loops of \<open>kptCommandArgs\<close>:
  \<^verbatim>\<open>for _, v := range vs { parts := strings.Split(v, " "); args = append(args, parts...) }\<close>
\<close>

definition appendParts :: "string list \<Rightarrow> string list \<Rightarrow> string list" where
  "appendParts args vs = fold (\<lambda>v args. args @ Split v CHR '' '') vs args"

definition kptCommandArgs ::
  "string \<Rightarrow> string list \<Rightarrow> string list \<Rightarrow> string list \<Rightarrow> string list" where
  "kptCommandArgs dir commands flags globalFlags =
     (let args = [];
          args = appendParts args commands;
          args = (if length dir > 0 then args @ [dir] else args);
          args = appendParts args flags;
          args = appendParts args globalFlags
      in args)"

subsection \<open>The function-annotation filter\<close>

definition kptFnAnnotation :: string where
  "kptFnAnnotation = ''config.kubernetes.io/function''"

definition kptFnLocalConfig :: string where
  "kptFnLocalConfig = ''config.kubernetes.io/local-config''"

text \<open>
  The library functions \<open>ExcludeKptFn\<close> calls are not part of the repository
  (sigs.k8s.io/yaml and apimachinery's \<^verbatim>\<open>unstructured.Unstructured\<close>), and
  \<^verbatim>\<open>ManifestList.Append\<close> is defined outside the file: they are parameters. \<open>'obj\<close> is
  the type of structured objects. \<open>YAMLToJSON\<close> returns both results of the Go function, the
  bytes and the error. \<open>Append\<close> gives the documents that appending a buffer adds at the
  end of a manifest list.
\<close>

record 'obj k8s =
  YAMLToJSON :: "bytes \<Rightarrow> bytes \<times> error option"
  UnmarshalJSON :: "bytes \<Rightarrow> error + 'obj"
  GetAnnotations :: "'obj \<Rightarrow> (string \<rightharpoonup> string)"
  SetAnnotations :: "'obj \<Rightarrow> (string \<rightharpoonup> string) \<Rightarrow> 'obj"
  MarshalJSON :: "'obj \<Rightarrow> error + bytes"
  JSONToYAML :: "bytes \<Rightarrow> error + bytes"
  Append :: "bytes \<Rightarrow> bytes list"

text \<open>
  The loop of \<open>ExcludeKptFn\<close> over the documents still to visit, with \<open>newManifest\<close>
  as built so far. The error of \<open>YAMLToJSON\<close> is dropped, as in
  \<^verbatim>\<open>jByte, _ := k8syaml.YAMLToJSON(yByte)\<close>. Where the local-config annotation is
  stored, the map of annotations holds the function marker, so it is not nil and the
  store cannot panic.
\<close>

fun excludeLoop :: "'obj k8s \<Rightarrow> bytes list \<Rightarrow> bytes list \<Rightarrow> error + bytes list" where
  "excludeLoop lib newManifest [] = Inr newManifest"
| "excludeLoop lib newManifest (yByte # rest) =
     (let jByte = fst (YAMLToJSON lib yByte) in
      case UnmarshalJSON lib jByte of
        Inl err \<Rightarrow> Inl (Wrap ''unmarshaling config'' err)
      | Inr obj \<Rightarrow>
          if GetAnnotations lib obj kptFnAnnotation = None
          then excludeLoop lib (newManifest @ [yByte]) rest
          else if GetAnnotations lib obj kptFnLocalConfig \<noteq> None
          then excludeLoop lib (newManifest @ [yByte]) rest
          else
            (let anns = GetAnnotations lib obj;
                 anns = anns(kptFnLocalConfig \<mapsto> ''true'');
                 obj = SetAnnotations lib obj anns
             in case MarshalJSON lib obj of
                  Inl err \<Rightarrow> Inl (Wrap ''marshaling to json'' err)
                | Inr jByte \<Rightarrow>
                    (case JSONToYAML lib jByte of
                       Inl err \<Rightarrow> Inl (Wrap ''converting json to yaml'' err)
                     | Inr newYByte \<Rightarrow>
                         excludeLoop lib (newManifest @ Append lib newYByte) rest)))"

definition ExcludeKptFn :: "'obj k8s \<Rightarrow> bytes list \<Rightarrow> error + bytes list" where
  "ExcludeKptFn lib manifest = excludeLoop lib [] manifest"

text \<open>
  Vocabulary for the properties of the filter. \<open>annotationsOf lib d\<close> is what the filter
  reads in a document: its annotations, when the document unmarshals.
\<close>

definition annotationsOf :: "'obj k8s \<Rightarrow> bytes \<Rightarrow> (string \<rightharpoonup> string) option" where
  "annotationsOf lib yByte =
     (case UnmarshalJSON lib (fst (YAMLToJSON lib yByte)) of
        Inl err \<Rightarrow> None
      | Inr obj \<Rightarrow> Some (GetAnnotations lib obj))"

text \<open>
  A document is left alone when it has no function-marker annotation, or has the marker
  and a local-config annotation of any value.
\<close>

definition leftAlone :: "'obj k8s \<Rightarrow> bytes \<Rightarrow> bool" where
  "leftAlone lib yByte =
     (case annotationsOf lib yByte of
        None \<Rightarrow> False
      | Some anns \<Rightarrow> anns kptFnAnnotation = None \<or> anns kptFnLocalConfig \<noteq> None)"

text \<open>
  The contract of the libraries that idempotence rests on, for one document: when the
  filter rewrites the document, what it wrote is read back as one document carrying the
  annotations that were written.
\<close>

definition readsBack :: "'obj k8s \<Rightarrow> bytes \<Rightarrow> bool" where
  "readsBack lib yByte \<longleftrightarrow>
     (\<forall>obj anns j y.
        UnmarshalJSON lib (fst (YAMLToJSON lib yByte)) = Inr obj \<longrightarrow>
        GetAnnotations lib obj kptFnAnnotation \<noteq> None \<longrightarrow>
        GetAnnotations lib obj kptFnLocalConfig = None \<longrightarrow>
        anns = (GetAnnotations lib obj)(kptFnLocalConfig \<mapsto> ''true'') \<longrightarrow>
        MarshalJSON lib (SetAnnotations lib obj anns) = Inr j \<longrightarrow>
        JSONToYAML lib j = Inr y \<longrightarrow>
        Append lib y = [y] \<and>
        (\<exists>obj'. UnmarshalJSON lib (fst (YAMLToJSON lib y)) = Inr obj' \<and>
                GetAnnotations lib obj' = anns))"

text \<open>
  A small instance of the libraries, to run the filter on. A document is a line of words;
  the word \<open>fn\<close> stands for the function-marker annotation (of value \<open>fake\<close>), the word
  \<open>local\<close> for the local-config annotation (of value \<open>true\<close>), and the document
  \<open>garbage\<close> does not unmarshal. An object is its annotations.
\<close>

definition toyUnmarshal :: "bytes \<Rightarrow> error + (string \<rightharpoonup> string)" where
  "toyUnmarshal b =
     (if b = ''garbage'' then Inl (Failure ''Object Kind is missing'')
      else Inr (\<lambda>k. if k = kptFnAnnotation \<and> ''fn'' \<in> set (Split b CHR '' '') then Some ''fake''
                     else if k = kptFnLocalConfig \<and> ''local'' \<in> set (Split b CHR '' '')
                     then Some ''true'' else None))"

definition toyMarshal :: "(string \<rightharpoonup> string) \<Rightarrow> error + bytes" where
  "toyMarshal obj =
     Inr ((if obj kptFnAnnotation = None then ''pod'' else ''fn'')
          @ (if obj kptFnLocalConfig = None then [] else '' local''))"

definition toyK8s :: "(string \<rightharpoonup> string) k8s" where
  "toyK8s = \<lparr> YAMLToJSON = (\<lambda>y. (y, None)), UnmarshalJSON = toyUnmarshal,
              GetAnnotations = (\<lambda>obj. obj), SetAnnotations = (\<lambda>obj anns. anns),
              MarshalJSON = toyMarshal, JSONToYAML = Inr, Append = (\<lambda>buf. [buf]) \<rparr>"

subsection \<open>Paths\<close>

text \<open>
  \<open>stringsJoin\<close> is \<^verbatim>\<open>strings.Join\<close>. \<open>Clean\<close>, \<open>Join\<close> and \<open>Base\<close> are those of
  package path/filepath on a system whose separator is the slash. \<open>cleanParts\<close> is the
  loop of \<open>Clean\<close> over the elements of the path, \<open>out\<close> being the elements written so
  far: an empty element and \<open>.\<close> are dropped, \<open>..\<close> removes the element before it when
  there is one to remove, is kept at the front of a path that is not rooted, and is
  dropped at the root.
\<close>

fun stringsJoin :: "string list \<Rightarrow> string \<Rightarrow> string" where
  "stringsJoin [] sep = []"
| "stringsJoin [x] sep = x"
| "stringsJoin (x # y # ys) sep = x @ sep @ stringsJoin (y # ys) sep"

fun cleanParts :: "bool \<Rightarrow> string list \<Rightarrow> string list \<Rightarrow> string list" where
  "cleanParts rooted out [] = out"
| "cleanParts rooted out (e # es) =
     (if e = [] \<or> e = ''.'' then cleanParts rooted out es
      else if e = ''..'' then
        (if out \<noteq> [] \<and> last out \<noteq> ''..'' then cleanParts rooted (butlast out) es
         else if \<not> rooted then cleanParts rooted (out @ [''..'']) es
         else cleanParts rooted out es)
      else cleanParts rooted (out @ [e]) es)"

definition Clean :: "string \<Rightarrow> string" where
  "Clean path =
     (if path = [] then ''.''
      else
        (let rooted = (hd path = CHR ''/'');
             out = (if rooted then ''/'' else [])
                   @ stringsJoin (cleanParts rooted [] (Split path CHR ''/'')) ''/''
         in if out = [] then ''.'' else out))"

text \<open>\<^verbatim>\<open>filepath.Join(a, b)\<close>: empty elements are ignored, the rest is joined and cleaned.\<close>

definition Join :: "string \<Rightarrow> string \<Rightarrow> string" where
  "Join a b =
     (if a \<noteq> [] then Clean (stringsJoin [a, b] ''/'')
      else if b \<noteq> [] then Clean b
      else [])"

definition Base :: "string \<Rightarrow> string" where
  "Base path =
     (if path = [] then ''.''
      else
        (let path = rev (dropWhile (\<lambda>c. c = CHR ''/'') (rev path))
         in if path = [] then ''/'' else last (Split path CHR ''/'')))"

subsection \<open>The file system\<close>

text \<open>
  The file system is a tree of regular files and directories; a directory lists its
  entries with their names, in the order in which it is read (sorted by name). The root of
  the tree is
  both the root directory and the working directory of the process, so that relative and
  rooted paths name the same files. Symbolic links, permissions and failures of the
  device are not part of the model.
\<close>

datatype node = RegularFile bytes | Directory "(string \<times> node) list"

fun IsDir :: "node \<Rightarrow> bool" where
  "IsDir (Directory es) = True"
| "IsDir (RegularFile b) = False"

text \<open>
  What \<^verbatim>\<open>os.Stat\<close> and \<^verbatim>\<open>os.Lstat\<close> find at a path: the file, or the error ENOENT
  (\<open>NoEntry\<close>, the only one for which \<^verbatim>\<open>os.IsNotExist\<close> holds), or the error ENOTDIR
  (\<open>NotADirectory\<close>: an element of the path is looked up in a regular file).
  \<open>resolveFrom cur ups elems\<close> follows the elements of a path from the node \<open>cur\<close>,
  whose ancestors are \<open>ups\<close>, nearest first.
\<close>

datatype lookup = Found node | NoEntry | NotADirectory

fun resolveFrom :: "node \<Rightarrow> node list \<Rightarrow> string list \<Rightarrow> lookup" where
  "resolveFrom cur ups [] = Found cur"
| "resolveFrom (RegularFile b) ups (e # es) = NotADirectory"
| "resolveFrom (Directory ents) ups (e # es) =
     (if e = [] \<or> e = ''.'' then resolveFrom (Directory ents) ups es
      else if e = ''..'' then
        (case ups of
           [] \<Rightarrow> resolveFrom (Directory ents) [] es
         | parent # ups' \<Rightarrow> resolveFrom parent ups' es)
      else
        (case map_of ents e of
           None \<Rightarrow> NoEntry
         | Some child \<Rightarrow> resolveFrom child (Directory ents # ups) es))"

definition Stat :: "node \<Rightarrow> string \<Rightarrow> lookup" where
  "Stat root path = (if path = [] then NoEntry else resolveFrom root [] (Split path CHR ''/''))"

text \<open>
  The elements of a path from the root, \<open>..\<close> resolved on the text of the path. The paths
  that are created and removed below are results of \<open>Join\<close> or constants, in which \<open>..\<close>
  can only stand in front.
\<close>

definition absParts :: "string \<Rightarrow> string list" where
  "absParts path = cleanParts True [] (Split path CHR ''/'')"

text \<open>
  \<^verbatim>\<open>os.MkdirAll\<close>: nothing to do when the path is a directory, an error when it is a
  regular file; otherwise (\<open>mkdirs\<close>) every missing directory on the way is created, which
  fails when the way leads through a regular file.
\<close>

fun mkdirs :: "string list \<Rightarrow> node \<Rightarrow> error + node" where
  "mkdirs [] n = (if IsDir n then Inr n else Inl (NotDir []))"
| "mkdirs (e # es) (RegularFile b) = Inl (NotDir e)"
| "mkdirs (e # es) (Directory ents) =
     (case map_of ents e of
        None \<Rightarrow>
          (case mkdirs es (Directory []) of
             Inl err \<Rightarrow> Inl err
           | Inr child \<Rightarrow> Inr (Directory (insort_key fst (e, child) ents)))
      | Some n \<Rightarrow>
          (case mkdirs es n of
             Inl err \<Rightarrow> Inl err
           | Inr child \<Rightarrow> Inr (Directory (AList.update e child ents))))"

definition MkdirAll :: "string \<Rightarrow> node \<Rightarrow> error + node" where
  "MkdirAll path root =
     (case Stat root path of
        Found n \<Rightarrow> (if IsDir n then Inr root else Inl (NotDir path))
      | NoEntry \<Rightarrow> mkdirs (absParts path) root
      | NotADirectory \<Rightarrow> mkdirs (absParts path) root)"

text \<open>
  \<^verbatim>\<open>os.RemoveAll\<close>: removes the path and what is below it; a path that does not exist is
  no error, the empty path neither; a path that ends in an element \<open>.\<close> is refused, and
  so is, here, the root itself.
\<close>

fun removeAt :: "string list \<Rightarrow> node \<Rightarrow> error + node" where
  "removeAt [] n = Inl (Failure ''device or resource busy'')"
| "removeAt (e # es) (RegularFile b) = Inl (NotDir e)"
| "removeAt [e] (Directory ents) = Inr (Directory (AList.delete e ents))"
| "removeAt (e # e' # es) (Directory ents) =
     (case map_of ents e of
        None \<Rightarrow> Inr (Directory ents)
      | Some n \<Rightarrow>
          (case removeAt (e' # es) n of
             Inl err \<Rightarrow> Inl err
           | Inr child \<Rightarrow> Inr (Directory (AList.update e child ents))))"

definition endsWithDot :: "string \<Rightarrow> bool" where
  "endsWithDot path \<longleftrightarrow>
     path = ''.'' \<or> (length path \<ge> 2 \<and> last path = CHR ''.'' \<and> last (butlast path) = CHR ''/'')"

definition RemoveAll :: "string \<Rightarrow> node \<Rightarrow> error + node" where
  "RemoveAll path root =
     (if path = [] then Inr root
      else if endsWithDot path then Inl (Failure ''invalid argument'')
      else removeAt (absParts path) root)"

subsection \<open>Finding resources\<close>

text \<open>
  The regular expression \<^verbatim>\<open>\.ya?ml$\<close> matches a name exactly when the name ends in
  \<open>.yaml\<close> or in \<open>.yml\<close> (in Go the dollar matches at the end of the text only). The
  pattern is a constant that compiles, so \<^verbatim>\<open>regexp.MatchString\<close> returns no error.
\<close>

definition endsWith :: "string \<Rightarrow> string \<Rightarrow> bool" where
  "endsWith s suffix \<longleftrightarrow>
     length suffix \<le> length s \<and> drop (length s - length suffix) s = suffix"

definition isResource :: "string \<Rightarrow> bool" where
  "isResource name \<longleftrightarrow> endsWith name ''.yaml'' \<or> endsWith name ''.yml''"

text \<open>
  A call that returns, or panics. The function handed to \<^verbatim>\<open>filepath.Walk\<close> ignores the
  error it is given and calls \<^verbatim>\<open>info.IsDir()\<close>; when Walk could not look the root up, the
  info is nil and the call panics.
\<close>

datatype 'a outcome = Returns 'a | Panics

definition visit :: "string \<Rightarrow> node \<Rightarrow> string list \<Rightarrow> string list" where
  "visit path info files =
     (if \<not> IsDir info \<and> isResource (Base path) then files @ [path] else files)"

definition walkFn :: "string \<Rightarrow> node option \<Rightarrow> string list \<Rightarrow> string list outcome" where
  "walkFn path info files =
     (case info of
        None \<Rightarrow> Panics
      | Some n \<Rightarrow> Returns (visit path n files))"

text \<open>
  \<^verbatim>\<open>filepath.Walk\<close> below a node that was looked up: the function is called for the node
  (\<open>visit\<close> is \<open>walkFn\<close> with an info, where it neither panics nor returns an error, so that
  the walk is never cut short); then, for a directory, the entries are walked in order,
  each under the path joined from the directory's path and the entry's name.
\<close>

fun walk :: "string \<Rightarrow> node \<Rightarrow> string list \<Rightarrow> string list"
  and walkEntries :: "string \<Rightarrow> (string \<times> node) list \<Rightarrow> string list \<Rightarrow> string list" where
  "walk path (RegularFile b) files = visit path (RegularFile b) files"
| "walk path (Directory ents) files =
     walkEntries path ents (visit path (Directory ents) files)"
| "walkEntries path [] files = files"
| "walkEntries path ((name, child) # ents) files =
     walkEntries path ents (walk (Join path name) child files)"

definition Walk :: "string \<Rightarrow> node \<Rightarrow> string list outcome" where
  "Walk root fsys =
     (case Stat fsys root of
        Found n \<Rightarrow> Returns (walk root n [])
      | NoEntry \<Rightarrow> walkFn root None []
      | NotADirectory \<Rightarrow> walkFn root None [])"

definition getResources :: "string \<Rightarrow> node \<Rightarrow> (error + string list) outcome" where
  "getResources root fsys =
     (case Stat fsys root of
        NoEntry \<Rightarrow> Returns (Inl (NotExist root))
      | _ \<Rightarrow>
          (case Walk root fsys of
             Panics \<Rightarrow> Panics
           | Returns files \<Rightarrow> Returns (Inr files)))"

text \<open>
  The files below a root, for the statement of what \<open>getResources\<close> returns:
  \<open>liesBelow root n path m\<close> holds when \<open>m\<close> is the node \<open>n\<close> at \<open>root\<close> itself, or an entry
  of a directory below, under the path joined from the directory's path and its name.
\<close>

inductive liesBelow :: "string \<Rightarrow> node \<Rightarrow> string \<Rightarrow> node \<Rightarrow> bool" for root n where
  here: "liesBelow root n root n"
| entry: "liesBelow root n path (Directory ents) \<Longrightarrow> (name, child) \<in> set ents \<Longrightarrow>
          liesBelow root n (Join path name) child"

subsection \<open>The deployer and its collaborators\<close>

definition inventoryTemplate :: string where
  "inventoryTemplate = ''inventory-template.yaml''"

definition kptHydrated :: string where
  "kptHydrated = ''.kpt-hydrated''"

definition pipeline :: string where
  "pipeline = ''.pipeline''"

text \<open>
  The configuration \<^verbatim>\<open>latest.KptDeploy\<close> embedded in the deployer, with the fields the
  file reads. The field \<^verbatim>\<open>Dir\<close> of \<^verbatim>\<open>k.Live.Apply\<close> is \<open>ApplyDir\<close> here, since
  \<open>Dir\<close> is the field of the deployer.
\<close>

record KptFn =
  FnPath :: string
  Image :: string
  NetworkName :: string
  GlobalScope :: bool
  Network :: bool
  Mount :: "string list"

record KptApplyInventory =
  ApplyDir :: string
  InventoryID :: string
  InventoryNamespace :: string

record KptApplyOptions =
  PollPeriod :: string
  PrunePropagationPolicy :: string
  PruneTimeout :: string
  ReconcileTimeout :: string

record KptLive =
  Apply :: KptApplyInventory
  Options :: KptApplyOptions

record KptDeployer =
  Dir :: string
  Fn :: KptFn
  Live :: KptLive
  insecureRegistries :: "string \<rightharpoonup> bool"
  labels :: "string \<rightharpoonup> string"
  globalConfig :: string

record Artifact =
  ImageName :: string
  Tag :: string

type_synonym Registries = "(string \<rightharpoonup> bool) \<times> string"

text \<open>
  A subprocess: the program, its arguments and what it is given on standard input. The
  state of the world is the file system and the subprocesses spawned so far, in order.
\<close>

datatype cmd = Cmd string "string list" bytes

record world =
  fs :: node
  spawned :: "cmd list"

text \<open>
  What the file calls and does not define. \<open>runCommand\<close> is the behaviour of an external
  process (\<^verbatim>\<open>util.DefaultExecCommand\<close>): from the command and the file system, its
  standard output or its failure, and the file system it leaves. The others are functions
  of the repository defined in other files (the registry of debug helpers, the search for
  a kustomization config and for its dependencies, the arguments of kustomize build, the
  operations of a manifest list and the writing of the rendered manifests); those that
  read or write files take the file system.
\<close>

record 'obj env =
  libs :: "'obj k8s"
  runCommand :: "cmd \<Rightarrow> node \<Rightarrow> (error + bytes) \<times> node"
  GetDebugHelpersRegistry :: "string \<Rightarrow> node \<Rightarrow> error + string"
  findKustomizationConfig :: "string \<Rightarrow> node \<Rightarrow> error + string"
  dependenciesForKustomization :: "string \<Rightarrow> node \<Rightarrow> error + string list"
  buildCommandArgs :: "string list \<Rightarrow> string \<Rightarrow> string list"
  ReplaceImages :: "bytes list \<Rightarrow> Artifact list \<Rightarrow> error + bytes list"
  manifestTransforms :: "(bytes list \<Rightarrow> Artifact list \<Rightarrow> Registries \<Rightarrow> error + bytes list) list"
  SetLabels :: "bytes list \<Rightarrow> (string \<rightharpoonup> string) \<Rightarrow> error + bytes list"
  CollectNamespaces :: "bytes list \<Rightarrow> error + string list"
  manifestsString :: "bytes list \<Rightarrow> string"
  outputRenderedManifests :: "string \<Rightarrow> string \<Rightarrow> node \<Rightarrow> node"

text \<open>\<^verbatim>\<open>util.RunCmdOut\<close> and \<^verbatim>\<open>util.RunCmd\<close>: the process runs, and is recorded.\<close>

definition RunCmdOut :: "'obj env \<Rightarrow> cmd \<Rightarrow> world \<Rightarrow> (error + bytes) \<times> world" where
  "RunCmdOut e c w =
     (case runCommand e c (fs w) of
        (r, fs') \<Rightarrow> (r, \<lparr> fs = fs', spawned = spawned w @ [c] \<rparr>))"

definition RunCmd :: "'obj env \<Rightarrow> cmd \<Rightarrow> world \<Rightarrow> (error + unit) \<times> world" where
  "RunCmd e c w =
     (case RunCmdOut e c w of
        (Inl err, w') \<Rightarrow> (Inl err, w')
      | (Inr out, w') \<Rightarrow> (Inr (), w'))"

subsection \<open>Arguments of the kpt commands\<close>

definition getKptFnRunArgs :: "KptDeployer \<Rightarrow> error + string list" where
  "getKptFnRunArgs k =
     (let flags = [''--dry-run''];
          flags = (if GlobalScope (Fn k) then flags @ [''--global-scope''] else flags);
          flags = (if length (Mount (Fn k)) > 0
                   then flags @ [''--mount'', stringsJoin (Mount (Fn k)) '','']
                   else flags);
          flags = (if Network (Fn k) then flags @ [''--network''] else flags);
          flags = (if length (NetworkName (Fn k)) > 0
                   then flags @ [''--network-name'', NetworkName (Fn k)]
                   else flags);
          count = (0 :: nat);
          (flags, count) = (if length (FnPath (Fn k)) > 0
                            then (flags @ [''--fn-path'', FnPath (Fn k)], count + 1)
                            else (flags, count));
          (flags, count) = (if length (Image (Fn k)) > 0
                            then (flags @ [''--image'', Image (Fn k)], count + 1)
                            else (flags, count))
      in if count > 1
         then Inl (New ''only one of `fn-path` or `image` may be specified'')
         else Inr flags)"

definition getKptLiveApplyArgs :: "KptDeployer \<Rightarrow> string list" where
  "getKptLiveApplyArgs k =
     (let flags = [];
          flags = (if length (PollPeriod (Options (Live k))) > 0
                   then flags @ [''--poll-period'', PollPeriod (Options (Live k))]
                   else flags);
          flags = (if length (PrunePropagationPolicy (Options (Live k))) > 0
                   then flags @ [''--prune-propagation-policy'',
                                 PrunePropagationPolicy (Options (Live k))]
                   else flags);
          flags = (if length (PruneTimeout (Options (Live k))) > 0
                   then flags @ [''--prune-timeout'', PruneTimeout (Options (Live k))]
                   else flags);
          flags = (if length (ReconcileTimeout (Options (Live k))) > 0
                   then flags @ [''--reconcile-timeout'', ReconcileTimeout (Options (Live k))]
                   else flags)
      in flags)"

definition getKptLiveInitArgs :: "KptDeployer \<Rightarrow> string list" where
  "getKptLiveInitArgs k =
     (let flags = [];
          flags = (if length (InventoryID (Apply (Live k))) > 0
                   then flags @ [''--inventory-id'', InventoryID (Apply (Live k))]
                   else flags);
          flags = (if length (InventoryNamespace (Apply (Live k))) > 0
                   then flags @ [''--namespace'', InventoryNamespace (Apply (Live k))]
                   else flags)
      in flags)"

subsection \<open>Dependencies\<close>

text \<open>
  Modelled from the spec: the string set of the deploy package (\<^verbatim>\<open>newStringSet\<close>,
  \<^verbatim>\<open>insert\<close>, \<^verbatim>\<open>toList\<close>), which is defined in another file. The specification calls
  the dependency set a deduplicated, sorted collection of paths: the set is a list without
  repetitions, and \<open>toList\<close> sorts it.
\<close>

definition newStringSet :: "string list" where
  "newStringSet = []"

definition insertStrings :: "string list \<Rightarrow> string list \<Rightarrow> string list" where
  "insertStrings l strings = fold (\<lambda>s l. if s \<in> set l then l else l @ [s]) strings l"

definition toList :: "string list \<Rightarrow> string list" where
  "toList l = sort l"

definition Dependencies :: "'obj env \<Rightarrow> KptDeployer \<Rightarrow> node \<Rightarrow> (error + string list) outcome" where
  "Dependencies e k fsys =
     (let deps = newStringSet;
          deps = (if length (FnPath (Fn k)) > 0 then insertStrings deps [FnPath (Fn k)] else deps)
      in case getResources (Dir k) fsys of
           Panics \<Rightarrow> Panics
         | Returns (Inl err) \<Rightarrow> Returns (Inl (Wrap (''finding dependencies in '' @ Dir k) err))
         | Returns (Inr configDeps) \<Rightarrow>
             (let deps = insertStrings deps configDeps
              in case dependenciesForKustomization e (Dir k) fsys of
                   Inl err \<Rightarrow>
                     Returns (Inl (Wrap (''finding kustomization directly under '' @ Dir k) err))
                 | Inr kustomizeDeps \<Rightarrow>
                     (let deps = insertStrings deps kustomizeDeps
                      in Returns (Inr (toList deps)))))"

subsection \<open>The apply directory\<close>

definition getApplyDir :: "'obj env \<Rightarrow> KptDeployer \<Rightarrow> world \<Rightarrow> (error + string) \<times> world" where
  "getApplyDir e k w =
     (if ApplyDir (Apply (Live k)) \<noteq> [] then
        (case Stat (fs w) (ApplyDir (Apply (Live k))) of
           NoEntry \<Rightarrow> (Inl (NotExist (ApplyDir (Apply (Live k)))), w)
         | _ \<Rightarrow> (Inr (ApplyDir (Apply (Live k))), w))
      else
        (case MkdirAll kptHydrated (fs w) of
           Inl err \<Rightarrow> (Inl (Wrap ''applyDir was unspecified. creating applyDir'' err), w)
         | Inr fs' \<Rightarrow>
             (let w = w\<lparr> fs := fs' \<rparr>
              in case Stat (fs w) (Join kptHydrated inventoryTemplate) of
                   NoEntry \<Rightarrow>
                     (case RunCmdOut e
                             (Cmd ''kpt''
                                (kptCommandArgs kptHydrated [''live'', ''init'']
                                   (getKptLiveInitArgs k) []) [])
                             w of
                        (Inl err, w) \<Rightarrow> (Inl err, w)
                      | (Inr out, w) \<Rightarrow> (Inr kptHydrated, w))
                 | _ \<Rightarrow> (Inr kptHydrated, w))))"

subsection \<open>The hydration pipeline\<close>

definition readConfigs :: "'obj env \<Rightarrow> KptDeployer \<Rightarrow> world \<Rightarrow> (error + unit) \<times> world" where
  "readConfigs e k w =
     (case RunCmdOut e (Cmd ''kpt'' (kptCommandArgs (Dir k) [''fn'', ''source''] [] []) []) w of
        (Inl err, w) \<Rightarrow> (Inl err, w)
      | (Inr b, w) \<Rightarrow>
          (case RunCmdOut e
                  (Cmd ''kpt'' (kptCommandArgs (Join pipeline (Dir k)) [''fn'', ''sink''] [] []) b)
                  w of
             (Inl err, w) \<Rightarrow> (Inl err, w)
           | (Inr out, w) \<Rightarrow> (Inr (), w)))"

text \<open>
  The loop at the end of \<open>kustomizeBuild\<close>:
  \<^verbatim>\<open>for _, v := range deps { if err := os.RemoveAll(filepath.Join(pipeline, v)); err != nil { return err } }\<close>
\<close>

fun removeDryConfigs :: "string list \<Rightarrow> world \<Rightarrow> (error + unit) \<times> world" where
  "removeDryConfigs [] w = (Inr (), w)"
| "removeDryConfigs (v # deps) w =
     (case RemoveAll (Join pipeline v) (fs w) of
        Inl err \<Rightarrow> (Inl err, w)
      | Inr fs' \<Rightarrow> removeDryConfigs deps (w\<lparr> fs := fs' \<rparr>))"

definition kustomizeBuild :: "'obj env \<Rightarrow> KptDeployer \<Rightarrow> world \<Rightarrow> (error + unit) \<times> world" where
  "kustomizeBuild e k w =
     (case findKustomizationConfig e (Dir k) (fs w) of
        Inl err \<Rightarrow> (Inr (), w)
      | Inr config \<Rightarrow>
          (case RunCmdOut e
                  (Cmd ''kustomize'' (buildCommandArgs e [''-o'', Join pipeline (Dir k)] (Dir k)) [])
                  w of
             (Inl err, w) \<Rightarrow> (Inl err, w)
           | (Inr out, w) \<Rightarrow>
               (case dependenciesForKustomization e (Dir k) (fs w) of
                  Inl err \<Rightarrow> (Inl (Wrap ''finding kustomization dependencies'' err), w)
                | Inr deps \<Rightarrow> removeDryConfigs deps w)))"

definition kptFnRun :: "'obj env \<Rightarrow> KptDeployer \<Rightarrow> world \<Rightarrow> (error + bytes list) \<times> world" where
  "kptFnRun e k w =
     (let manifests = [] in
      case getKptFnRunArgs k of
        Inl err \<Rightarrow> (Inl (Wrap ''getting kpt fn run args'' err), w)
      | Inr flags \<Rightarrow>
          (case RunCmdOut e (Cmd ''kpt'' (kptCommandArgs pipeline [''fn'', ''run''] flags []) []) w of
             (Inl err, w) \<Rightarrow> (Inl err, w)
           | (Inr out, w) \<Rightarrow>
               (Inr (if length out > 0 then manifests @ Append (libs e) out else manifests), w)))"

text \<open>
  The loop over \<^verbatim>\<open>manifestTransforms\<close> in \<open>renderManifests\<close>.
\<close>

fun applyTransforms ::
  "(bytes list \<Rightarrow> Artifact list \<Rightarrow> Registries \<Rightarrow> error + bytes list) list \<Rightarrow>
   bytes list \<Rightarrow> Artifact list \<Rightarrow> Registries \<Rightarrow> error + bytes list" where
  "applyTransforms [] manifests builds regs = Inr manifests"
| "applyTransforms (transform # ts) manifests builds regs =
     (case transform manifests builds regs of
        Inl err \<Rightarrow> Inl (Wrap ''unable to transform manifests'' err)
      | Inr manifests \<Rightarrow> applyTransforms ts manifests builds regs)"

definition renderManifests ::
  "'obj env \<Rightarrow> KptDeployer \<Rightarrow> Artifact list \<Rightarrow> world \<Rightarrow> (error + bytes list) \<times> world" where
  "renderManifests e k builds w =
     (case GetDebugHelpersRegistry e (globalConfig k) (fs w) of
        Inl err \<Rightarrow> (Inl (Wrap ''retrieving debug helpers registry'' err), w)
      | Inr debugHelpersRegistry \<Rightarrow>
     (case RemoveAll (Join pipeline (Dir k)) (fs w) of
        Inl err \<Rightarrow>
          (Inl (Wrap (''deleting temporary directory '' @ Join pipeline (Dir k)) err), w)
      | Inr fs' \<Rightarrow>
     (let w = w\<lparr> fs := fs' \<rparr> in
      case MkdirAll (Join pipeline (Dir k)) (fs w) of
        Inl err \<Rightarrow>
          (Inl (Wrap (''creating temporary directory '' @ Join pipeline (Dir k)) err), w)
      | Inr fs' \<Rightarrow>
     (let w = w\<lparr> fs := fs' \<rparr> in
      case readConfigs e k w of
        (Inl err, w) \<Rightarrow> (Inl (Wrap ''reading config manifests'' err), w)
      | (Inr u, w) \<Rightarrow>
     (case kustomizeBuild e k w of
        (Inl err, w) \<Rightarrow> (Inl (Wrap ''kustomize build'' err), w)
      | (Inr u, w) \<Rightarrow>
     (case kptFnRun e k w of
        (Inl err, w) \<Rightarrow> (Inl (Wrap ''running kpt functions'' err), w)
      | (Inr manifests, w) \<Rightarrow>
          if length manifests = 0 then (Inr [], w)
          else
            (case ExcludeKptFn (libs e) manifests of
               Inl err \<Rightarrow> (Inl (Wrap ''exclude kpt fn from manipulated resources'' err), w)
             | Inr manifests \<Rightarrow>
            (case ReplaceImages e manifests builds of
               Inl err \<Rightarrow> (Inl (Wrap ''replacing images in manifests'' err), w)
             | Inr manifests \<Rightarrow>
            (case applyTransforms (manifestTransforms e) manifests builds
                    (insecureRegistries k, debugHelpersRegistry) of
               Inl err \<Rightarrow> (Inl err, w)
             | Inr manifests \<Rightarrow> (SetLabels e manifests (labels k), w))))))))))"

text \<open>
  \<open>Deploy\<close>. What it writes to its writer and the event it sends when the namespaces
  cannot be collected are not modelled; the namespaces are then none.
\<close>

definition Deploy ::
  "'obj env \<Rightarrow> KptDeployer \<Rightarrow> Artifact list \<Rightarrow> world \<Rightarrow> (error + string list) \<times> world" where
  "Deploy e k builds w =
     (case renderManifests e k builds w of
        (Inl err, w) \<Rightarrow> (Inl err, w)
      | (Inr manifests, w) \<Rightarrow>
          if length manifests = 0 then (Inr [], w)
          else
            (let namespaces = (case CollectNamespaces e manifests of
                                 Inl err \<Rightarrow> []
                               | Inr ns \<Rightarrow> ns)
             in case getApplyDir e k w of
                  (Inl err, w) \<Rightarrow> (Inl (Wrap ''getting applyDir'' err), w)
                | (Inr applyDir, w) \<Rightarrow>
                    (let w = w\<lparr> fs := outputRenderedManifests e (manifestsString e manifests)
                                        (Join applyDir ''resources.yaml'') (fs w) \<rparr>
                     in case RunCmd e
                               (Cmd ''kpt''
                                  (kptCommandArgs applyDir [''live'', ''apply'']
                                     (getKptLiveApplyArgs k) []) [])
                               w of
                          (Inl err, w) \<Rightarrow> (Inl err, w)
                        | (Inr u, w) \<Rightarrow> (Inr namespaces, w))))"

subsection \<open>Stand-ins to run the deployer on\<close>

text \<open>
  External processes in the manner of the fake command runner of the tests: \<open>kpt fn source\<close>
  prints one document, \<open>kpt fn sink\<close> and \<open>kpt live apply\<close> succeed, \<open>kpt fn run\<close> prints
  \<open>fnOut\<close>, \<open>kpt live init\<close> on the hidden directory writes the inventory template
  there, and anything else fails. There is no kustomization config, and the operations on
  manifest lists leave the list as it is.
\<close>

fun fakeRun :: "bytes \<Rightarrow> cmd \<Rightarrow> node \<Rightarrow> (error + bytes) \<times> node" where
  "fakeRun fnOut (Cmd prog args input) fsys =
     (if prog = ''kpt'' \<and> take 2 args = [''fn'', ''source''] then (Inr ''pod'', fsys)
      else if prog = ''kpt'' \<and> take 2 args = [''fn'', ''sink''] then (Inr [], fsys)
      else if prog = ''kpt'' \<and> take 2 args = [''fn'', ''run''] then (Inr fnOut, fsys)
      else if prog = ''kpt'' \<and> take 3 args = [''live'', ''init'', kptHydrated] then
        (Inr [],
         case fsys of
           Directory ents \<Rightarrow>
             Directory (AList.update kptHydrated
                          (Directory [(inventoryTemplate, RegularFile [])]) ents)
         | RegularFile b \<Rightarrow> RegularFile b)
      else if prog = ''kpt'' \<and> take 2 args = [''live'', ''apply''] then (Inr [], fsys)
      else (Inl (Failure ''exit status 1''), fsys))"

definition fakeEnv :: "bytes \<Rightarrow> (string \<rightharpoonup> string) env" where
  "fakeEnv fnOut =
     \<lparr> libs = toyK8s,
       runCommand = fakeRun fnOut,
       GetDebugHelpersRegistry = (\<lambda>config fsys. Inr ''gcr.io/k8s-skaffold/skaffold-debug-support''),
       findKustomizationConfig = (\<lambda>dir fsys. Inl (Failure ''no Kustomization configuration found'')),
       dependenciesForKustomization = (\<lambda>dir fsys. Inr []),
       buildCommandArgs = (\<lambda>args dir. ''build'' # args @ [dir]),
       ReplaceImages = (\<lambda>manifests builds. Inr manifests),
       manifestTransforms = [],
       SetLabels = (\<lambda>manifests ls. Inr manifests),
       CollectNamespaces = (\<lambda>manifests. Inr []),
       manifestsString = (\<lambda>manifests. stringsJoin manifests ''\<newline>---\<newline>''),
       outputRenderedManifests = (\<lambda>manifests path fsys. fsys) \<rparr>"

definition aDeployer :: "string \<Rightarrow> string \<Rightarrow> string \<Rightarrow> string \<Rightarrow> KptDeployer" where
  "aDeployer dir fnPath img applyDir =
     \<lparr> Dir = dir,
       Fn = \<lparr> FnPath = fnPath, Image = img, NetworkName = [], GlobalScope = False,
              Network = False, Mount = [] \<rparr>,
       Live = \<lparr> Apply = \<lparr> ApplyDir = applyDir, InventoryID = [], InventoryNamespace = [] \<rparr>,
                Options = \<lparr> PollPeriod = [], PrunePropagationPolicy = [],
                            PruneTimeout = [], ReconcileTimeout = [] \<rparr> \<rparr>,
       insecureRegistries = Map.empty,
       labels = Map.empty,
       globalConfig = [] \<rparr>"

definition freshWorld :: world where
  "freshWorld = \<lparr> fs = Directory [], spawned = [] \<rparr>"

text \<open>The directory of the specification's example, and a project with a function path.\<close>

definition exampleDir :: node where
  "exampleDir =
     Directory [(''README.md'', RegularFile []), (''bar.yml'', RegularFile []),
                (''foo.yaml'', RegularFile [])]"

definition exampleProject :: node where
  "exampleProject =
     Directory [(''config'', Directory [(''deployment.yaml'', RegularFile [])]),
                (''kpt-fn'', Directory [(''kpt-func.yaml'', RegularFile [])])]"

subsection \<open>Vocabulary of the properties\<close>



abbreviation bothConfigured :: error where
  "bothConfigured \<equiv> New ''only one of `fn-path` or `image` may be specified''"

text \<open>
  The subprocesses of the stages before the function-mutation stage: \<open>kpt fn source\<close> on
  the directory, \<open>kpt fn sink\<close> on its copy under the pipeline directory, whatever it is
  given to read, and \<open>kustomize build\<close>. \<open>isKptFnRun\<close> recognises a \<open>kpt fn run\<close>.
\<close>

definition earlierCommands :: "'obj env \<Rightarrow> KptDeployer \<Rightarrow> cmd set" where
  "earlierCommands e k =
     {Cmd ''kpt'' (kptCommandArgs (Dir k) [''fn'', ''source''] [] []) []}
     \<union> {c. \<exists>b. c = Cmd ''kpt'' (kptCommandArgs (Join pipeline (Dir k)) [''fn'', ''sink''] [] []) b}
     \<union> {Cmd ''kustomize'' (buildCommandArgs e [''-o'', Join pipeline (Dir k)] (Dir k)) []}"

definition isKptFnRun :: "cmd \<Rightarrow> bool" where
  "isKptFnRun c =
     (case c of Cmd prog args input \<Rightarrow> prog = ''kpt'' \<and> take 2 args = [''fn'', ''run''])"

text \<open>
  The collaborators \<open>e\<close> with the stages after the function-mutation stage replaced: the
  libraries of the annotation filter (all but \<open>Append\<close>, which the function-mutation
  stage uses), the image substitution, the additional transforms, the label injection and
  the collection of namespaces. \<open>neverRun\<close> replaces them all by stages that fail.
\<close>

definition laterStages ::
  "'obj env \<Rightarrow> 'obj k8s \<Rightarrow> (bytes list \<Rightarrow> Artifact list \<Rightarrow> error + bytes list) \<Rightarrow>
   (bytes list \<Rightarrow> Artifact list \<Rightarrow> Registries \<Rightarrow> error + bytes list) list \<Rightarrow>
   (bytes list \<Rightarrow> (string \<rightharpoonup> string) \<Rightarrow> error + bytes list) \<Rightarrow>
   (bytes list \<Rightarrow> error + string list) \<Rightarrow> 'obj env" where
  "laterStages e filterLib replaceImages transforms setLabels collectNamespaces =
     e\<lparr> libs := filterLib\<lparr> Append := Append (libs e) \<rparr>,
        ReplaceImages := replaceImages,
        manifestTransforms := transforms,
        SetLabels := setLabels,
        CollectNamespaces := collectNamespaces \<rparr>"

definition neverRun :: "(string \<rightharpoonup> string) env" where
  "neverRun =
     laterStages (fakeEnv [])
       \<lparr> YAMLToJSON = (\<lambda>y. ([], Some (Failure ''not to be run''))),
         UnmarshalJSON = (\<lambda>j. Inl (Failure ''not to be run'')),
         GetAnnotations = (\<lambda>obj. obj), SetAnnotations = (\<lambda>obj anns. anns),
         MarshalJSON = (\<lambda>obj. Inl (Failure ''not to be run'')),
         JSONToYAML = (\<lambda>j. Inl (Failure ''not to be run'')), Append = (\<lambda>buf. []) \<rparr>
       (\<lambda>manifests builds. Inl (Failure ''not to be run''))
       [\<lambda>manifests builds regs. Inl (Failure ''not to be run'')]
       (\<lambda>manifests ls. Inl (Failure ''not to be run''))
       (\<lambda>manifests. Inl (Failure ''not to be run''))"

section \<open>Properties\<close>

subsection \<open>Argument vectors\<close>

lemma Split_not_Nil: "Split s c \<noteq> []"
  by (induction s) (auto split: list.splits)

lemma Split_pieces_free: "t \<in> set (Split s c) \<Longrightarrow> c \<notin> set t"
  by (induction s arbitrary: t) (auto split: if_splits list.splits)

lemma appendParts_concat:
  "appendParts args vs = args @ concat (map (\<lambda>v. Split v CHR '' '') vs)"
  unfolding appendParts_def by (induction vs arbitrary: args) simp_all

text \<open>
  Claim C2. For every directory, list of command tokens, list of flag tokens and list of
  global-flag tokens, \<open>kptCommandArgs\<close> returns the space-split command tokens, then the
  directory unless it is empty, then the space-split flags, then the space-split global
  flags; and the example of the specification evaluates as stated.
\<close>

theorem kptCommandArgs_order:
  "kptCommandArgs dir commands flags globalFlags =
     concat (map (\<lambda>v. Split v CHR '' '') commands)
     @ (if dir = [] then [] else [dir])
     @ concat (map (\<lambda>v. Split v CHR '' '') flags)
     @ concat (map (\<lambda>v. Split v CHR '' '') globalFlags)
   \<and> kptCommandArgs ''test'' [''live'', ''apply''] [''--fn-path'', ''a.yaml''] [''-h'']
     = [''live'', ''apply'', ''test'', ''--fn-path'', ''a.yaml'', ''-h'']"
  by (simp add: kptCommandArgs_def appendParts_concat)

subsection \<open>The function-annotation filter\<close>

lemma excludeLoop_append:
  "excludeLoop lib acc (xs @ ys) =
     (case excludeLoop lib acc xs of Inl e \<Rightarrow> Inl e | Inr r \<Rightarrow> excludeLoop lib r ys)"
  by (induction xs arbitrary: acc) (auto simp: Let_def split: sum.splits)

text \<open>
  A successful run cuts the output into one chunk per document, after what was there
  before; the chunk of a document that is left alone is that document.
\<close>

lemma excludeLoop_chunks:
  "excludeLoop lib acc m = Inr out \<Longrightarrow>
   \<exists>chunks. length chunks = length m \<and> out = acc @ concat chunks \<and>
     (\<forall>i<length m. leftAlone lib (m ! i) \<longrightarrow> chunks ! i = [m ! i])"
proof (induction m arbitrary: acc out)
  case Nil
  then show ?case by simp
next
  case (Cons d rest)
  from Cons.prems obtain acc' c where
    step: "excludeLoop lib acc' rest = Inr out" and acc': "acc' = acc @ c"
    and c: "leftAlone lib d \<longrightarrow> c = [d]"
    by (auto simp: Let_def leftAlone_def annotationsOf_def split: sum.splits if_splits)
  from Cons.IH [OF step] obtain chunks where
    ch: "length chunks = length rest" "out = acc' @ concat chunks"
      "\<forall>i<length rest. leftAlone lib (rest ! i) \<longrightarrow> chunks ! i = [rest ! i]"
    by blast
  have "\<forall>i<length (d # rest).
          leftAlone lib ((d # rest) ! i) \<longrightarrow> (c # chunks) ! i = [(d # rest) ! i]"
    using c ch(3) by (auto simp: nth_Cons split: nat.splits)
  with ch(1,2) acc' show ?case
    by (intro exI [of _ "c # chunks"]) simp
qed


lemma excludeLoop_fails:
  "\<exists>d\<in>set m. \<exists>e. UnmarshalJSON lib (fst (YAMLToJSON lib d)) = Inl e \<Longrightarrow>
   \<exists>e. excludeLoop lib acc m = Inl e"
  by (induction m arbitrary: acc) (auto simp: Let_def split: sum.splits)

lemma excludeLoop_conversion_error:
  "excludeLoop (lib\<lparr>YAMLToJSON := \<lambda>y. (fst (YAMLToJSON lib y), f y)\<rparr>) acc m
   = excludeLoop lib acc m"
  by (induction m arbitrary: acc) (auto simp: Let_def split: sum.splits)

text \<open>
  The contract follows from two laws of the libraries: the annotations set on an object
  are the annotations it has, and an object that is marshalled and converted to YAML is
  appended as one document that unmarshals to an object with the same annotations.
\<close>

lemma readsBack_from_laws:
  assumes getset: "\<forall>obj anns. GetAnnotations lib (SetAnnotations lib obj anns) = anns"
    and roundtrip: "\<forall>obj j y. MarshalJSON lib obj = Inr j \<longrightarrow> JSONToYAML lib j = Inr y \<longrightarrow>
           Append lib y = [y] \<and>
           (\<exists>obj'. UnmarshalJSON lib (fst (YAMLToJSON lib y)) = Inr obj' \<and>
                   GetAnnotations lib obj' = GetAnnotations lib obj)"
  shows "readsBack lib d"
  unfolding readsBack_def using getset roundtrip by metis

lemmas toy_defs =
  ExcludeKptFn_def toyK8s_def toyUnmarshal_def toyMarshal_def
  kptFnAnnotation_def kptFnLocalConfig_def



text \<open>
  Claim C4. When the filter succeeds, its output is the concatenation of one chunk per
  input document, in order, and the chunk of every document without the function-marker
  annotation, and of every document with the marker that already has a local-config
  annotation of any value, is exactly that document, byte for byte.
\<close>

theorem ExcludeKptFn_frame:
  "ExcludeKptFn lib S = Inr T \<Longrightarrow>
   \<exists>chunks. length chunks = length S \<and> T = concat chunks \<and>
     (\<forall>i<length S. leftAlone lib (S ! i) \<longrightarrow> chunks ! i = [S ! i])"
  using excludeLoop_chunks [of lib "[]" S T] unfolding ExcludeKptFn_def by simp

theorem ExcludeKptFn_frame_witness:
  "ExcludeKptFn toyK8s [''fn'', ''fn local'', ''pod''] = Inr [''fn local'', ''fn local'', ''pod'']
   \<and> leftAlone toyK8s ''fn local'' \<and> leftAlone toyK8s ''pod''
   \<and> (\<exists>chunks. length chunks = 3 \<and> [''fn local'', ''fn local'', ''pod''] = concat chunks
        \<and> chunks ! 1 = [''fn local''] \<and> chunks ! 2 = [''pod''])"
proof -
  have run: "ExcludeKptFn toyK8s [''fn'', ''fn local'', ''pod'']
             = Inr [''fn local'', ''fn local'', ''pod'']"
    by (simp add: toy_defs)
  have la: "leftAlone toyK8s ''fn local''" "leftAlone toyK8s ''pod''"
    by (simp_all add: leftAlone_def annotationsOf_def toy_defs)
  from ExcludeKptFn_frame [OF run] obtain chunks where
    len: "length chunks = length [''fn'', ''fn local'', ''pod'']" and
    ch: "[''fn local'', ''fn local'', ''pod''] = concat chunks" and
    all: "\<forall>i<length [''fn'', ''fn local'', ''pod''].
            leftAlone toyK8s ([''fn'', ''fn local'', ''pod''] ! i)
            \<longrightarrow> chunks ! i = [[''fn'', ''fn local'', ''pod''] ! i]"
    by blast
  from all [rule_format, of 1] all [rule_format, of 2] la
  have "chunks ! 1 = [''fn local'']" "chunks ! 2 = [''pod'']" by simp_all
  moreover from len have "length chunks = 3" by simp
  ultimately show ?thesis using run la ch by blast
qed

text \<open>
  Claim C10. The filter is all or nothing. If any document of the set fails to unmarshal
  (after the conversion from YAML to JSON), the filter returns an error and no documents;
  the error for the first document that fails, when the documents before it went through,
  is the unmarshal error wrapped in \<open>unmarshaling config\<close>; and the error of the
  conversion from YAML to JSON is never looked at: replacing it changes nothing.
\<close>

theorem ExcludeKptFn_all_or_nothing:
  "((\<exists>d\<in>set S. \<exists>e. UnmarshalJSON lib (fst (YAMLToJSON lib d)) = Inl e)
      \<longrightarrow> (\<exists>e. ExcludeKptFn lib S = Inl e))
   \<and> (ExcludeKptFn lib pre = Inr T \<longrightarrow> UnmarshalJSON lib (fst (YAMLToJSON lib d)) = Inl e
      \<longrightarrow> ExcludeKptFn lib (pre @ d # post) = Inl (Wrap ''unmarshaling config'' e))
   \<and> ExcludeKptFn (lib\<lparr>YAMLToJSON := \<lambda>y. (fst (YAMLToJSON lib y), f y)\<rparr>) S
       = ExcludeKptFn lib S"
  using excludeLoop_fails [of S lib "[]"] excludeLoop_conversion_error [of lib f "[]" S]
  by (auto simp: ExcludeKptFn_def excludeLoop_append Let_def)

theorem ExcludeKptFn_all_or_nothing_witness:
  "UnmarshalJSON toyK8s (fst (YAMLToJSON toyK8s ''garbage'')) = Inl (Failure ''Object Kind is missing'')
   \<and> ExcludeKptFn toyK8s [''fn''] = Inr [''fn local'']
   \<and> ExcludeKptFn toyK8s ([''fn''] @ ''garbage'' # [''pod''])
       = Inl (Wrap ''unmarshaling config'' (Failure ''Object Kind is missing''))
   \<and> (\<exists>e. ExcludeKptFn toyK8s [''pod'', ''garbage'', ''fn''] = Inl e)
   \<and> ExcludeKptFn
         (toyK8s\<lparr>YAMLToJSON := \<lambda>y. (fst (YAMLToJSON toyK8s y), Some (Failure ''yaml: line 1''))\<rparr>)
         [''pod'', ''garbage'', ''fn'']
       = ExcludeKptFn toyK8s [''pod'', ''garbage'', ''fn'']"
proof -
  have run: "ExcludeKptFn toyK8s [''fn''] = Inr [''fn local'']"
    by (simp add: toy_defs)
  have bad: "UnmarshalJSON toyK8s (fst (YAMLToJSON toyK8s ''garbage''))
             = Inl (Failure ''Object Kind is missing'')"
    by (simp add: toy_defs)
  then have some: "\<exists>d\<in>set [''pod'', ''garbage'', ''fn''].
                     \<exists>e. UnmarshalJSON toyK8s (fst (YAMLToJSON toyK8s d)) = Inl e"
    by simp
  from ExcludeKptFn_all_or_nothing
    [of "[''pod'', ''garbage'', ''fn'']" toyK8s "[''fn'']" "[''fn local'']" "''garbage''"
        "Failure ''Object Kind is missing''" "[''pod'']"
        "\<lambda>y. Some (Failure ''yaml: line 1'')"]
    run bad some
  show ?thesis by blast
qed

lemmas path_defs = Stat_def Join_def Clean_def Base_def absParts_def

lemmas fake_defs = fakeEnv_def aDeployer_def toyK8s_def

lemmas run_defs =
  readConfigs_def kustomizeBuild_def kptFnRun_def getKptFnRunArgs_def RunCmdOut_def
  kptCommandArgs_def appendParts_def MkdirAll_def RemoveAll_def endsWithDot_def pipeline_def

subsection \<open>Finding resources\<close>

lemma endsWith_iff: "endsWith s suffix \<longleftrightarrow> (\<exists>stem. s = stem @ suffix)"
proof
  assume "endsWith s suffix"
  then have "s = take (length s - length suffix) s @ suffix"
    by (metis append_take_drop_id endsWith_def)
  then show "\<exists>stem. s = stem @ suffix" ..
next
  assume "\<exists>stem. s = stem @ suffix"
  then show "endsWith s suffix" by (auto simp: endsWith_def)
qed

lemma isResource_iff:
  "isResource name \<longleftrightarrow> (\<exists>stem. name = stem @ ''.yaml'' \<or> name = stem @ ''.yml'')"
  unfolding isResource_def endsWith_iff by blast

text \<open>The extension is matched as written, whatever the stem.\<close>

lemma isResource_examples:
  "isResource ''foo.yaml'' \<and> isResource ''bar.yml'' \<and> isResource ''.yaml''
   \<and> \<not> isResource ''README.md'' \<and> \<not> isResource ''FOO.YAML'' \<and> \<not> isResource ''foo.Yml''
   \<and> \<not> isResource ''foo.yaml.bak'' \<and> \<not> isResource ''yaml''"
  by (simp add: isResource_def endsWith_def)

lemma liesBelow_file: "liesBelow root (RegularFile b) p m \<Longrightarrow> p = root \<and> m = RegularFile b"
  by (induction rule: liesBelow.induct) auto

lemma liesBelow_up:
  "liesBelow (Join root name) child p m \<Longrightarrow> (name, child) \<in> set ents \<Longrightarrow>
   liesBelow root (Directory ents) p m"
  by (induction rule: liesBelow.induct) (auto intro: liesBelow.intros)

lemma liesBelow_down:
  "liesBelow root (Directory ents) p m \<Longrightarrow>
   (p = root \<and> m = Directory ents) \<or>
   (\<exists>name child. (name, child) \<in> set ents \<and> liesBelow (Join root name) child p m)"
  by (induction rule: liesBelow.induct) (auto intro: liesBelow.intros)

text \<open>The walk adds exactly the regular files below the node whose base name matches.\<close>

lemma walk_set:
  "set (walk path n files) =
     set files \<union> {p. \<exists>b. liesBelow path n p (RegularFile b) \<and> isResource (Base p)}"
  "set (walkEntries path ents files) =
     set files \<union> {p. \<exists>name child b. (name, child) \<in> set ents
                      \<and> liesBelow (Join path name) child p (RegularFile b)
                      \<and> isResource (Base p)}"
proof (induction path n files and path ents files rule: walk_walkEntries.induct)
  case (1 path b files)
  show ?case by (auto simp: visit_def dest: liesBelow_file intro: liesBelow.here)
next
  case (2 path ents files)
  have "{p. \<exists>b. liesBelow path (Directory ents) p (RegularFile b) \<and> isResource (Base p)}
        = {p. \<exists>name child b. (name, child) \<in> set ents
              \<and> liesBelow (Join path name) child p (RegularFile b) \<and> isResource (Base p)}"
    (is "?L = ?R")
  proof
    show "?L \<subseteq> ?R" using liesBelow_down [of path ents] by blast
    show "?R \<subseteq> ?L" using liesBelow_up [of path _ _ _ _ ents] by blast
  qed
  then show ?case unfolding walk.simps "2.IH" by (simp add: visit_def)
next
  case (3 path files)
  show ?case by simp
next
  case (4 path name child ents files)
  show ?case unfolding walkEntries.simps "4.IH" by auto
qed

text \<open>
  Claim C5. For a root that exists (and so for every existing root directory),
  \<open>getResources\<close> returns a list of exactly the paths of the regular files at any depth
  below the root whose base name is a stem followed by \<open>.yaml\<close> or \<open>.yml\<close>, in these
  letters; directories are not listed.
\<close>

theorem getResources_exact:
  "Stat fsys root = Found n \<Longrightarrow>
   \<exists>files. getResources root fsys = Returns (Inr files) \<and>
     set files = {p. \<exists>b stem. liesBelow root n p (RegularFile b) \<and>
                       (Base p = stem @ ''.yaml'' \<or> Base p = stem @ ''.yml'')}"
  using walk_set(1) [of root n "[]"]
  by (simp add: getResources_def Walk_def isResource_iff del: walk.simps)

theorem getResources_exact_witness:
  "Stat exampleDir ''.'' = Found exampleDir
   \<and> IsDir exampleDir
   \<and> getResources ''.'' exampleDir = Returns (Inr [''bar.yml'', ''foo.yaml''])
   \<and> {p. \<exists>b stem. liesBelow ''.'' exampleDir p (RegularFile b) \<and>
                   (Base p = stem @ ''.yaml'' \<or> Base p = stem @ ''.yml'')}
       = {''bar.yml'', ''foo.yaml''}"
proof -
  have st: "Stat exampleDir ''.'' = Found exampleDir"
    by (simp add: exampleDir_def Stat_def)
  have run: "getResources ''.'' exampleDir = Returns (Inr [''bar.yml'', ''foo.yaml''])"
    by (simp add: exampleDir_def getResources_def Walk_def visit_def isResource_def
        endsWith_def path_defs)
  from getResources_exact [OF st] obtain files where
    "getResources ''.'' exampleDir = Returns (Inr files)" and
    files: "set files = {p. \<exists>b stem. liesBelow ''.'' exampleDir p (RegularFile b) \<and>
                              (Base p = stem @ ''.yaml'' \<or> Base p = stem @ ''.yml'')}"
    by blast
  with run have "files = [''bar.yml'', ''foo.yaml'']" by simp
  with files have "{p. \<exists>b stem. liesBelow ''.'' exampleDir p (RegularFile b) \<and>
                     (Base p = stem @ ''.yaml'' \<or> Base p = stem @ ''.yml'')}
                   = {''bar.yml'', ''foo.yaml''}" by auto
  moreover have "IsDir exampleDir" by (simp add: exampleDir_def)
  ultimately show ?thesis using st run by blast
qed

text \<open>
  A root at which \<open>os.Stat\<close> finds no entry: \<open>getResources\<close> returns the error of
  \<open>os.Stat\<close>, for which \<open>os.IsNotExist\<close> holds, and no list, and \<open>Dependencies\<close> returns
  that error wrapped; for a root that is an empty directory \<open>getResources\<close> returns the
  empty list and no error, so that the two are told apart.
\<close>

lemma getResources_missing_root:
  "(Stat fsys missing = NoEntry \<longrightarrow>
      getResources missing fsys = Returns (Inl (NotExist missing)) \<and>
      (Dir k = missing \<longrightarrow>
         Dependencies e k fsys
         = Returns (Inl (Wrap (''finding dependencies in '' @ missing) (NotExist missing)))))
   \<and> (Stat fsys vacant = Found (Directory []) \<longrightarrow> getResources vacant fsys = Returns (Inr []))"
  by (simp add: getResources_def Dependencies_def Walk_def visit_def Let_def)

lemma getResources_missing_root_example:
  "Stat (Directory [(''empty'', Directory [])]) ''invalid_path'' = NoEntry
   \<and> getResources ''invalid_path'' (Directory [(''empty'', Directory [])])
       = Returns (Inl (NotExist ''invalid_path''))
   \<and> Dependencies (fakeEnv []) (aDeployer ''invalid_path'' [] [] [])
         (Directory [(''empty'', Directory [])])
       = Returns (Inl (Wrap ''finding dependencies in invalid_path'' (NotExist ''invalid_path'')))
   \<and> Stat (Directory [(''empty'', Directory [])]) ''empty'' = Found (Directory [])
   \<and> getResources ''empty'' (Directory [(''empty'', Directory [])]) = Returns (Inr [])"
proof -
  have a: "Stat (Directory [(''empty'', Directory [])]) ''invalid_path'' = NoEntry"
    by (simp add: Stat_def)
  have b: "Stat (Directory [(''empty'', Directory [])]) ''empty'' = Found (Directory [])"
    by (simp add: Stat_def)
  have c: "Dir (aDeployer ''invalid_path'' [] [] []) = ''invalid_path''"
    by (simp add: aDeployer_def)
  from getResources_missing_root
    [of "Directory [(''empty'', Directory [])]" "''invalid_path''"
        "aDeployer ''invalid_path'' [] [] []" "fakeEnv []" "''empty''"] a b c
  show ?thesis by simp
qed

text \<open>
  A root that is not there because an element of its path is a regular file: \<open>os.Stat\<close>
  fails with ENOTDIR, for which \<open>os.IsNotExist\<close> does not hold, so \<open>getResources\<close> goes
  on to \<open>filepath.Walk\<close>, which cannot look the root up either and calls the function
  with a nil info; the function ignores the error and panics on \<open>info.IsDir()\<close>.
\<close>

lemma getResources_prefix_is_file:
  "Stat fsys root = NotADirectory \<Longrightarrow> getResources root fsys = Panics"
  by (simp add: getResources_def Walk_def walkFn_def)

lemma Dependencies_prefix_is_file:
  "Stat fsys (Dir k) = NotADirectory \<Longrightarrow> Dependencies e k fsys = Panics"
  by (simp add: Dependencies_def getResources_prefix_is_file Let_def)

text \<open>
  Claim C6, at an input where the code departs from it. In the directory of the example
  \<open>README.md\<close> is a regular file, so the root \<open>README.md/x\<close> does not exist; neither
  \<open>getResources\<close> nor \<open>Dependencies\<close> returns an error for it: both panic.
\<close>

theorem getResources_panics_below_a_file:
  "Stat exampleDir ''README.md'' = Found (RegularFile [])
   \<and> Stat exampleDir ''README.md/x'' = NotADirectory
   \<and> getResources ''README.md/x'' exampleDir = Panics
   \<and> Dependencies (fakeEnv []) (aDeployer ''README.md/x'' [] [] []) exampleDir = Panics"
  by (simp add: exampleDir_def Dependencies_def getResources_def Walk_def walkFn_def Stat_def
      fake_defs Let_def)

subsection \<open>Dependencies\<close>

lemma insertStrings_set: "set (insertStrings l strings) = set l \<union> set strings"
  unfolding insertStrings_def by (induction strings arbitrary: l) auto

lemma insertStrings_distinct: "distinct l \<Longrightarrow> distinct (insertStrings l strings)"
  unfolding insertStrings_def by (induction strings arbitrary: l) auto

text \<open>
  What \<open>Dependencies\<close> returns when nothing fails: the function path as it is
  configured, the resources found below the directory, and the dependencies of the
  kustomization, sorted and without repetition. The function path is not looked into, for
  a templating config or for anything else.
\<close>

lemma Dependencies_set:
  assumes "getResources (Dir k) fsys = Returns (Inr configDeps)"
    and "dependenciesForKustomization e (Dir k) fsys = Inr kustomizeDeps"
  shows "\<exists>deps. Dependencies e k fsys = Returns (Inr deps) \<and> sorted deps \<and> distinct deps \<and>
           set deps = (if FnPath (Fn k) = [] then {} else {FnPath (Fn k)})
                      \<union> set configDeps \<union> set kustomizeDeps"
  using assms
  by (simp add: Dependencies_def Let_def toList_def newStringSet_def insertStrings_set
      insertStrings_distinct)

text \<open>
  Claim C7, at the input where the code departs from it. The function path is put into
  the set as the string it is; when it is a directory outside the configuration directory,
  the files inside it are not in the result.
\<close>

theorem Dependencies_fnPath_directory:
  "Dependencies (fakeEnv []) (aDeployer ''./config'' ''./kpt-fn'' [] []) exampleProject
     = Returns (Inr [''./kpt-fn'', ''config/deployment.yaml''])
   \<and> Stat exampleProject ''./kpt-fn/kpt-func.yaml'' = Found (RegularFile [])"
  by (simp add: Dependencies_def getResources_def Walk_def visit_def isResource_def endsWith_def
      exampleProject_def path_defs fake_defs newStringSet_def insertStrings_def toList_def Let_def)

subsection \<open>The apply directory\<close>








text \<open>
  A configured apply directory is only tested with \<open>os.IsNotExist\<close>: whatever else
  \<open>os.Stat\<close> finds or fails with, the configured path is returned as it is.
\<close>

lemma getApplyDir_explicit_unchecked:
  "ApplyDir (Apply (Live k)) \<noteq> [] \<Longrightarrow> Stat (fs w) (ApplyDir (Apply (Live k))) \<noteq> NoEntry \<Longrightarrow>
   getApplyDir e k w = (Inr (ApplyDir (Apply (Live k))), w)"
  by (simp add: getApplyDir_def split: lookup.splits)




subsection \<open>The hydration pipeline\<close>

lemma getKptFnRunArgs_both:
  "FnPath (Fn k) \<noteq> [] \<Longrightarrow> Image (Fn k) \<noteq> [] \<Longrightarrow> getKptFnRunArgs k = Inl bothConfigured"
  by (simp add: getKptFnRunArgs_def Let_def)

lemma kptFnRun_both:
  "FnPath (Fn k) \<noteq> [] \<Longrightarrow> Image (Fn k) \<noteq> [] \<Longrightarrow>
   kptFnRun e k w = (Inl (Wrap ''getting kpt fn run args'' bothConfigured), w)"
  by (simp add: kptFnRun_def getKptFnRunArgs_both)

lemma earlier_not_fn_run: "c \<in> earlierCommands e k \<Longrightarrow> \<not> isKptFnRun c"
  by (auto simp: earlierCommands_def isKptFnRun_def kptCommandArgs_def appendParts_def Let_def
      split: if_splits)

lemma removeDryConfigs_spawned: "spawned (snd (removeDryConfigs deps w)) = spawned w"
  by (induction deps arbitrary: w) (auto split: sum.splits)

lemma readConfigs_spawned:
  "\<exists>new. spawned (snd (readConfigs e k w)) = spawned w @ new \<and> set new \<subseteq> earlierCommands e k"
  by (auto simp: readConfigs_def RunCmdOut_def earlierCommands_def split: prod.splits sum.splits)

lemma kustomizeBuild_spawned:
  "\<exists>new. spawned (snd (kustomizeBuild e k w)) = spawned w @ new \<and> set new \<subseteq> earlierCommands e k"
  using removeDryConfigs_spawned
  by (auto simp: kustomizeBuild_def RunCmdOut_def earlierCommands_def split: prod.splits sum.splits)

text \<open>
  With both options set the pipeline fails, having spawned subprocesses of the earlier
  stages only.
\<close>

lemma renderManifests_both:
  assumes "FnPath (Fn k) \<noteq> []" "Image (Fn k) \<noteq> []"
  shows "\<exists>err w' new. renderManifests e k builds w = (Inl err, w') \<and>
           spawned w' = spawned w @ new \<and> set new \<subseteq> earlierCommands e k"
proof (cases "GetDebugHelpersRegistry e (globalConfig k) (fs w)")
  case (Inl err)
  then show ?thesis by (simp add: renderManifests_def)
next
  case reg: (Inr registry)
  show ?thesis
  proof (cases "RemoveAll (Join pipeline (Dir k)) (fs w)")
    case (Inl err)
    with reg show ?thesis by (simp add: renderManifests_def)
  next
    case rm: (Inr fs1)
    show ?thesis
    proof (cases "MkdirAll (Join pipeline (Dir k)) fs1")
      case (Inl err)
      with reg rm show ?thesis by (simp add: renderManifests_def)
    next
      case mk: (Inr fs2)
      obtain r3 w3 where rc: "readConfigs e k (w\<lparr>fs := fs2\<rparr>) = (r3, w3)" by force
      from readConfigs_spawned [of e k "w\<lparr>fs := fs2\<rparr>"] rc obtain new3 where
        n3: "spawned w3 = spawned w @ new3" "set new3 \<subseteq> earlierCommands e k" by auto
      show ?thesis
      proof (cases r3)
        case (Inl err)
        with reg rm mk rc n3 show ?thesis by (simp add: renderManifests_def)
      next
        case r3: (Inr u)
        obtain r4 w4 where kb: "kustomizeBuild e k w3 = (r4, w4)" by force
        from kustomizeBuild_spawned [of e k w3] kb obtain new4 where
          n4: "spawned w4 = spawned w3 @ new4" "set new4 \<subseteq> earlierCommands e k" by auto
        show ?thesis
        proof (cases r4)
          case (Inl err)
          with reg rm mk rc r3 kb n3 n4 show ?thesis by (simp add: renderManifests_def)
        next
          case (Inr u')
          with reg rm mk rc r3 kb n3 n4 kptFnRun_both [OF assms, of e w4]
          show ?thesis by (simp add: renderManifests_def)
        qed
      qed
    qed
  qed
qed

text \<open>
  Claim C1, as the code has it. When both the function path and the function image are
  configured, \<open>getKptFnRunArgs\<close> returns the configuration error, \<open>kptFnRun\<close> returns it
  wrapped without spawning \<open>kpt fn run\<close> and without touching the world, and the
  pipeline fails, having spawned nothing but subprocesses of the stages before the
  function mutation (\<open>kpt fn source\<close>, \<open>kpt fn sink\<close>, \<open>kustomize build\<close>), never
  \<open>kpt fn run\<close>.
\<close>

theorem both_configured:
  "FnPath (Fn k) \<noteq> [] \<Longrightarrow> Image (Fn k) \<noteq> [] \<Longrightarrow>
   getKptFnRunArgs k = Inl bothConfigured \<and>
   kptFnRun e k w = (Inl (Wrap ''getting kpt fn run args'' bothConfigured), w) \<and>
   (\<exists>err w' new. renderManifests e k builds w = (Inl err, w') \<and>
      spawned w' = spawned w @ new \<and>
      (\<forall>c\<in>set new. c \<in> earlierCommands e k \<and> \<not> isKptFnRun c))"
  using renderManifests_both [of k e builds w] earlier_not_fn_run [of _ e k]
  by (simp add: getKptFnRunArgs_both kptFnRun_both) blast

theorem both_configured_witness:
  "FnPath (Fn (aDeployer ''.'' ''kpt-func.yaml'' ''my-fn:v1.0.0'' [])) \<noteq> []
   \<and> Image (Fn (aDeployer ''.'' ''kpt-func.yaml'' ''my-fn:v1.0.0'' [])) \<noteq> []
   \<and> getKptFnRunArgs (aDeployer ''.'' ''kpt-func.yaml'' ''my-fn:v1.0.0'' []) = Inl bothConfigured
   \<and> kptFnRun (fakeEnv []) (aDeployer ''.'' ''kpt-func.yaml'' ''my-fn:v1.0.0'' []) freshWorld
       = (Inl (Wrap ''getting kpt fn run args'' bothConfigured), freshWorld)
   \<and> (\<exists>err w'. renderManifests (fakeEnv []) (aDeployer ''.'' ''kpt-func.yaml'' ''my-fn:v1.0.0'' [])
                  [] freshWorld = (Inl err, w')
          \<and> list_all (\<lambda>c. \<not> isKptFnRun c) (spawned w'))"
proof -
  let ?k = "aDeployer ''.'' ''kpt-func.yaml'' ''my-fn:v1.0.0'' []"
  have a: "FnPath (Fn ?k) \<noteq> []" and b: "Image (Fn ?k) \<noteq> []"
    by (simp_all add: aDeployer_def)
  from both_configured [OF a b, of "fakeEnv []" freshWorld "[]"] obtain err w' new where
    "getKptFnRunArgs ?k = Inl bothConfigured"
    "kptFnRun (fakeEnv []) ?k freshWorld
       = (Inl (Wrap ''getting kpt fn run args'' bothConfigured), freshWorld)"
    "renderManifests (fakeEnv []) ?k [] freshWorld = (Inl err, w')"
    "spawned w' = spawned freshWorld @ new"
    "\<forall>c\<in>set new. c \<in> earlierCommands (fakeEnv []) ?k \<and> \<not> isKptFnRun c"
    by blast
  moreover have "spawned freshWorld = []" by (simp add: freshWorld_def)
  ultimately show ?thesis using a b by (auto simp: list_all_iff)
qed

text \<open>
  Claim C1, as it is stated, fails: on a fresh project with both options set, the
  configuration error is returned after \<open>kpt fn source\<close> and \<open>kpt fn sink\<close> have run (and
  the pipeline directory has been created).
\<close>

theorem both_configured_subprocesses_first:
  "FnPath (Fn (aDeployer ''.'' ''kpt-func.yaml'' ''my-fn:v1.0.0'' [])) \<noteq> []
   \<and> Image (Fn (aDeployer ''.'' ''kpt-func.yaml'' ''my-fn:v1.0.0'' [])) \<noteq> []
   \<and> renderManifests (fakeEnv []) (aDeployer ''.'' ''kpt-func.yaml'' ''my-fn:v1.0.0'' []) []
        freshWorld
      = (Inl (Wrap ''running kpt functions'' (Wrap ''getting kpt fn run args'' bothConfigured)),
         \<lparr> fs = Directory [(''.pipeline'', Directory [])],
           spawned = [Cmd ''kpt'' [''fn'', ''source'', ''.''] [],
                      Cmd ''kpt'' [''fn'', ''sink'', ''.pipeline''] ''pod''] \<rparr>)"
  by (simp add: renderManifests_def freshWorld_def run_defs path_defs fake_defs Let_def)

lemma laterStages_sel:
  "runCommand (laterStages e fl ri ts sl cn) = runCommand e"
  "GetDebugHelpersRegistry (laterStages e fl ri ts sl cn) = GetDebugHelpersRegistry e"
  "findKustomizationConfig (laterStages e fl ri ts sl cn) = findKustomizationConfig e"
  "dependenciesForKustomization (laterStages e fl ri ts sl cn) = dependenciesForKustomization e"
  "buildCommandArgs (laterStages e fl ri ts sl cn) = buildCommandArgs e"
  "Append (libs (laterStages e fl ri ts sl cn)) = Append (libs e)"
  by (simp_all add: laterStages_def)

lemma RunCmdOut_later: "RunCmdOut (laterStages e fl ri ts sl cn) = RunCmdOut e"
  by (simp add: fun_eq_iff RunCmdOut_def laterStages_sel)

text \<open>The stages up to the function mutation do not depend on the later ones.\<close>

lemma laterStages_same:
  "readConfigs (laterStages e fl ri ts sl cn) k w = readConfigs e k w"
  "kustomizeBuild (laterStages e fl ri ts sl cn) k w = kustomizeBuild e k w"
  "kptFnRun (laterStages e fl ri ts sl cn) k w = kptFnRun e k w"
  unfolding readConfigs_def kustomizeBuild_def kptFnRun_def RunCmdOut_later laterStages_sel
  by (rule refl)+

text \<open>A function-mutation stage that prints nothing produces no documents.\<close>

lemma kptFnRun_no_output:
  "getKptFnRunArgs k = Inr flags \<Longrightarrow>
   runCommand e (Cmd ''kpt'' (kptCommandArgs pipeline [''fn'', ''run''] flags []) []) (fs w)
     = (Inr [], fs') \<Longrightarrow>
   fst (kptFnRun e k w) = Inr []"
  by (simp add: kptFnRun_def RunCmdOut_def)

text \<open>
  Claim C8. When the stages up to the function mutation succeed and the function-mutation
  stage produces no documents, \<open>renderManifests\<close> and \<open>Deploy\<close> return the empty result
  and no error, in the world the function-mutation stage left: nothing is written and no
  subprocess (\<open>kpt live init\<close>, \<open>kpt live apply\<close>) is spawned after it. This holds
  whatever the later stages are (annotation filter, image substitution, additional
  transforms, label injection, collection of namespaces), so none of them is run.
\<close>

theorem no_documents_short_circuit:
  "GetDebugHelpersRegistry e (globalConfig k) (fs w) = Inr registry \<Longrightarrow>
   RemoveAll (Join pipeline (Dir k)) (fs w) = Inr fs1 \<Longrightarrow>
   MkdirAll (Join pipeline (Dir k)) fs1 = Inr fs2 \<Longrightarrow>
   readConfigs e k (w\<lparr>fs := fs2\<rparr>) = (Inr (), w3) \<Longrightarrow>
   kustomizeBuild e k w3 = (Inr (), w4) \<Longrightarrow>
   kptFnRun e k w4 = (Inr [], w5) \<Longrightarrow>
   renderManifests (laterStages e fl ri ts sl cn) k builds w = (Inr [], w5) \<and>
   Deploy (laterStages e fl ri ts sl cn) k builds w = (Inr [], w5)"
  by (simp add: renderManifests_def Deploy_def laterStages_same laterStages_sel)

theorem no_documents_short_circuit_witness:
  "renderManifests neverRun (aDeployer ''.'' [] [] []) [] freshWorld
     = (Inr [], \<lparr> fs = Directory [(''.pipeline'', Directory [])],
                  spawned = [Cmd ''kpt'' [''fn'', ''source'', ''.''] [],
                             Cmd ''kpt'' [''fn'', ''sink'', ''.pipeline''] ''pod'',
                             Cmd ''kpt'' [''fn'', ''run'', ''.pipeline'', ''--dry-run''] []] \<rparr>)
   \<and> Deploy neverRun (aDeployer ''.'' [] [] []) [] freshWorld
     = (Inr [], \<lparr> fs = Directory [(''.pipeline'', Directory [])],
                  spawned = [Cmd ''kpt'' [''fn'', ''source'', ''.''] [],
                             Cmd ''kpt'' [''fn'', ''sink'', ''.pipeline''] ''pod'',
                             Cmd ''kpt'' [''fn'', ''run'', ''.pipeline'', ''--dry-run''] []] \<rparr>)"
proof -
  let ?k = "aDeployer ''.'' [] [] []"
  let ?fs2 = "Directory [(''.pipeline'', Directory [])]"
  let ?w3 = "\<lparr> fs = ?fs2, spawned = [Cmd ''kpt'' [''fn'', ''source'', ''.''] [],
                             Cmd ''kpt'' [''fn'', ''sink'', ''.pipeline''] ''pod''] \<rparr>"
  let ?w5 = "\<lparr> fs = ?fs2, spawned = [Cmd ''kpt'' [''fn'', ''source'', ''.''] [],
                             Cmd ''kpt'' [''fn'', ''sink'', ''.pipeline''] ''pod'',
                             Cmd ''kpt'' [''fn'', ''run'', ''.pipeline'', ''--dry-run''] []] \<rparr>"
  have 1: "GetDebugHelpersRegistry (fakeEnv []) (globalConfig ?k) (fs freshWorld)
           = Inr ''gcr.io/k8s-skaffold/skaffold-debug-support''"
    by (simp add: fake_defs)
  have 2: "RemoveAll (Join pipeline (Dir ?k)) (fs freshWorld) = Inr (Directory [])"
    by (simp add: freshWorld_def run_defs path_defs fake_defs)
  have 3: "MkdirAll (Join pipeline (Dir ?k)) (Directory []) = Inr ?fs2"
    by (simp add: run_defs path_defs fake_defs)
  have 4: "readConfigs (fakeEnv []) ?k (freshWorld\<lparr>fs := ?fs2\<rparr>) = (Inr (), ?w3)"
    by (simp add: freshWorld_def run_defs path_defs fake_defs)
  have 5: "kustomizeBuild (fakeEnv []) ?k ?w3 = (Inr (), ?w3)"
    by (simp add: run_defs fake_defs)
  have 6: "kptFnRun (fakeEnv []) ?k ?w3 = (Inr [], ?w5)"
    by (simp add: run_defs path_defs fake_defs Let_def)
  from no_documents_short_circuit [OF 1 2 3 4 5 6] show ?thesis
    unfolding neverRun_def by blast
qed

end
